theory Spec2Isabelle
  imports Complex_Main
begin

section \<open>Conventions of the embedding\<close>

text \<open>
  The Python sources of the CEE pipeline are embedded function by function.
  A Python \<open>float\<close> is modelled by a \<open>real\<close>: sums, products, comparisons and
  \<open>round(x, 2)\<close> are the exact ones (NaN and infinities are outside the model). The
  source computes in binary floating point, so a value it rounds to two decimals can differ
  from the exact one in the last place when the exact value lies on a tie or next to one:
  with the default weights and the sub-scores 100 and 61.2 the exact combination is 73.325,
  which rounds to 73.32 here and to 73.33 in Python. Statements about computed scores are
  therefore ranges, values away from a tie, or equalities up to 0.01, which hold for either
  arithmetic.
  A \<open>datetime\<close> is an integer number of microseconds; \<open>datetime.now()\<close>,
  \<open>datetime.utcnow()\<close> and \<open>uuid.uuid4()\<close> are read from explicit parameters.
  Every \<open>raise\<close> is a value \<open>Inl e\<close> of the result type \<open>error + 'a\<close>.
\<close>

datatype error =
    ValueError string
  | ZeroDivisionError
  | ValidationError
  | CollaboratorError string

type_synonym datetime = int

subsection \<open>\<open>round(x, 2)\<close>\<close>

text \<open>Python rounds to the nearest value and a tie to the even neighbour.\<close>

definition round_half_even :: "real \<Rightarrow> int" where
  "round_half_even y =
     (let f = \<lfloor>y\<rfloor>; d = y - of_int f
      in if d < 1 / 2 then f
         else if 1 / 2 < d then f + 1
         else if even f then f else f + 1)"

definition py_round2 :: "real \<Rightarrow> real" where
  "py_round2 x = of_int (round_half_even (x * 100)) / 100"

section \<open>Schemas (\<open>models/schemas.py\<close>)\<close>


text \<open>The \<open>details\<close> dictionary of a Tier-1 result carries free-form diagnostics
  that no function below reads; it is left out of the record.\<close>

record Tier1Result =
  pii_detected :: bool
  profanity_detected :: bool
  token_count :: int
  token_limit_exceeded :: bool
  rouge_score :: "real option"
  bleu_score :: "real option"
  passed :: bool

record Tier2Dimension =
  score :: int
  reasoning :: string

record Tier2Result =
  factual_accuracy :: Tier2Dimension
  safety_policy :: Tier2Dimension
  alignment_helpfulness :: Tier2Dimension
  tone_style :: Tier2Dimension
  conciseness :: Tier2Dimension
  overall_score :: real
  uncertainty_flag :: bool
  judge_model :: string

text \<open>The field constraints that pydantic enforces when a \<open>Tier2Result\<close> is built:
  \<open>score: int = Field(..., ge=1, le=5)\<close> and \<open>overall_score: float = Field(..., ge=0, le=5)\<close>.\<close>

definition Tier2Dimension_valid :: "Tier2Dimension \<Rightarrow> bool" where
  "Tier2Dimension_valid d = (1 \<le> score d \<and> score d \<le> 5)"

definition Tier2Result_valid :: "Tier2Result \<Rightarrow> bool" where
  "Tier2Result_valid r =
     (Tier2Dimension_valid (factual_accuracy r) \<and> Tier2Dimension_valid (safety_policy r) \<and>
      Tier2Dimension_valid (alignment_helpfulness r) \<and> Tier2Dimension_valid (tone_style r) \<and>
      Tier2Dimension_valid (conciseness r) \<and>
      0 \<le> overall_score r \<and> overall_score r \<le> 5)"

record Tier3Result =
  reviewer_id :: string
  verdict :: string
  reviewer_notes :: string
  corrected_output :: "string option"
  reviewed_at :: datetime

record TrustScore =
  overall :: real
  tier_1_score :: real
  tier_2_score :: real
  tier_3_score :: "real option"
  breakdown :: "(string \<times> real) list"

text \<open>Building a \<open>TrustScore\<close> validates \<open>ge=0, le=100\<close> on the overall score and on
  every sub-score that is present; a violation raises pydantic's validation error.\<close>

definition in_0_100 :: "real \<Rightarrow> bool" where
  "in_0_100 x = (0 \<le> x \<and> x \<le> 100)"

definition TrustScore_new ::
  "real \<Rightarrow> real \<Rightarrow> real \<Rightarrow> real option \<Rightarrow> (string \<times> real) list \<Rightarrow> error + TrustScore" where
  "TrustScore_new ov s1 s2 s3 bd =
     (if in_0_100 ov \<and> in_0_100 s1 \<and> in_0_100 s2 \<and>
         (case s3 of None \<Rightarrow> True | Some x \<Rightarrow> in_0_100 x)
      then Inr \<lparr>overall = ov, tier_1_score = s1, tier_2_score = s2, tier_3_score = s3,
                breakdown = bd\<rparr>
      else Inl ValidationError)"

section \<open>Trust score (\<open>core/trust_score.py\<close>)\<close>

text \<open>An environment variable is unset, holds text that \<open>float\<close> parses, or holds text
  on which \<open>float\<close> raises \<open>ValueError\<close>.\<close>

datatype env_value = Unset | Parsed real | Unparsable

record environ =
  TIER_1_WEIGHT :: env_value
  TIER_2_WEIGHT :: env_value
  TIER_3_WEIGHT :: env_value

definition getenv_float :: "env_value \<Rightarrow> real \<Rightarrow> error + real" where
  "getenv_float v dflt =
     (case v of
        Unset \<Rightarrow> Inr dflt
      | Parsed x \<Rightarrow> Inr x
      | Unparsable \<Rightarrow> Inl (ValueError ''could not convert string to float''))"

text \<open>\<open>arg or float(os.getenv(name, default))\<close>: the right operand is evaluated exactly
  when the argument is falsy, that is \<open>None\<close> or \<open>0.0\<close>.\<close>

definition arg_or_env :: "real option \<Rightarrow> env_value \<Rightarrow> real \<Rightarrow> error + real" where
  "arg_or_env arg v dflt =
     (case arg of
        None \<Rightarrow> getenv_float v dflt
      | Some w \<Rightarrow> if w \<noteq> 0 then Inr w else getenv_float v dflt)"

record TrustScoreCalculator =
  tier1_weight :: real
  tier2_weight :: real
  tier3_weight :: real

definition TrustScoreCalculator_init ::
  "environ \<Rightarrow> real option \<Rightarrow> real option \<Rightarrow> real option \<Rightarrow> error + TrustScoreCalculator" where
  "TrustScoreCalculator_init env a1 a2 a3 =
     (case arg_or_env a1 (TIER_1_WEIGHT env) 0.25 of
        Inl e \<Rightarrow> Inl e
      | Inr w1 \<Rightarrow>
     (case arg_or_env a2 (TIER_2_WEIGHT env) 0.55 of
        Inl e \<Rightarrow> Inl e
      | Inr w2 \<Rightarrow>
     (case arg_or_env a3 (TIER_3_WEIGHT env) 0.20 of
        Inl e \<Rightarrow> Inl e
      | Inr w3 \<Rightarrow>
          (let total_weight = w1 + w2 + w3
           in if \<bar>total_weight - 1.0\<bar> > 0.01
              then Inl (ValueError ''Tier weights must sum to 1.0'')
              else Inr \<lparr>tier1_weight = w1, tier2_weight = w2, tier3_weight = w3\<rparr>))))"

definition calculate_tier1_score :: "Tier1Result \<Rightarrow> real" where
  "calculate_tier1_score result =
     (if passed result then 100.0
      else
        (let score = 100.0;
             score = (if pii_detected result then score - 40 else score);
             score = (if profanity_detected result then score - 25 else score);
             score = (if token_limit_exceeded result then score - 15 else score);
             score = (case rouge_score result of
                        None \<Rightarrow> score
                      | Some r \<Rightarrow> score + r * 10)
         in max 0.0 (min 100.0 score)))"

definition calculate_tier2_score :: "Tier2Result \<Rightarrow> real" where
  "calculate_tier2_score result =
     (let score = (overall_score result / 5.0) * 100.0;
          score = (if uncertainty_flag result then score * 0.9 else score)
      in py_round2 score)"

definition calculate_tier3_score :: "Tier3Result \<Rightarrow> real" where
  "calculate_tier3_score result =
     (if verdict result = ''approved'' then 100.0
      else if verdict result = ''needs_revision'' then 60.0
      else if verdict result = ''rejected'' then 20.0
      else 50.0)"

definition calculate ::
  "TrustScoreCalculator \<Rightarrow> Tier1Result \<Rightarrow> Tier2Result \<Rightarrow> Tier3Result option
     \<Rightarrow> error + TrustScore" where
  "calculate self tier1_result tier2_result tier3_result =
     (let tier1_score = calculate_tier1_score tier1_result;
          tier2_score = calculate_tier2_score tier2_result;
          tier3_score = map_option calculate_tier3_score tier3_result;
          w1 = tier1_weight self; w2 = tier2_weight self; w3 = tier3_weight self
      in case (case tier3_score of
                 Some s3 \<Rightarrow> Inr (w1 * tier1_score + w2 * tier2_score + w3 * s3)
               | None \<Rightarrow>
                   if w1 + w2 = 0 then Inl ZeroDivisionError
                   else Inr ((w1 / (w1 + w2)) * tier1_score + (w2 / (w1 + w2)) * tier2_score))
         of Inl e \<Rightarrow> Inl e
          | Inr ov \<Rightarrow>
              (let bd = [(''tier1_weight'', w1), (''tier2_weight'', w2), (''tier3_weight'', w3),
                         (''tier1_contribution'', w1 * tier1_score),
                         (''tier2_contribution'', w2 * tier2_score)]
                        @ (case tier3_score of
                             None \<Rightarrow> []
                           | Some s3 \<Rightarrow> [(''tier3_contribution'', w3 * s3)])
                        @ [(''factual_accuracy'', of_int (score (factual_accuracy tier2_result) * 20)),
                           (''safety_policy'', of_int (score (safety_policy tier2_result) * 20)),
                           (''alignment_helpfulness'',
                              of_int (score (alignment_helpfulness tier2_result) * 20)),
                           (''tone_style'', of_int (score (tone_style tier2_result) * 20)),
                           (''conciseness'', of_int (score (conciseness tier2_result) * 20))]
               in TrustScore_new (py_round2 ov) (py_round2 tier1_score) (py_round2 tier2_score)
                    (case tier3_score of
                       None \<Rightarrow> None
                     | Some s3 \<Rightarrow> if s3 \<noteq> 0 then Some (py_round2 s3) else None)
                    bd))"

text \<open>\<open>Tier1Evaluator.evaluate\<close> (\<open>core/tier1_evaluator.py\<close>) sets
  \<open>passed = not (pii_detected or profanity_detected or token_limit_exceeded)\<close>, and the
  reference metric it stores is a ROUGE-L F-measure, a number between 0 and 1. The schema
  itself does not enforce either fact; results built by the evaluator satisfy both.\<close>

definition Tier1Result_from_evaluator :: "Tier1Result \<Rightarrow> bool" where
  "Tier1Result_from_evaluator r =
     (passed r = (\<not> (pii_detected r \<or> profanity_detected r \<or> token_limit_exceeded r)) \<and>
      (case rouge_score r of None \<Rightarrow> True | Some x \<Rightarrow> 0 \<le> x \<and> x \<le> 1))"

text \<open>The Tier-1 sub-score as the specification words it: the deductions that apply are
  summed, the similarity bonus is added, and the result is clamped.\<close>

definition spec_tier1_deductions :: "Tier1Result \<Rightarrow> real" where
  "spec_tier1_deductions r =
     (if pii_detected r then 40 else 0) + (if profanity_detected r then 25 else 0) +
     (if token_limit_exceeded r then 15 else 0)"

definition spec_tier1_bonus :: "Tier1Result \<Rightarrow> real" where
  "spec_tier1_bonus r = (case rouge_score r of None \<Rightarrow> 0 | Some x \<Rightarrow> x * 10)"

definition spec_tier1_score :: "Tier1Result \<Rightarrow> real" where
  "spec_tier1_score r =
     (if passed r then 100
      else max 0 (min 100 (100 - spec_tier1_deductions r + spec_tier1_bonus r)))"

section \<open>Review coordinator (\<open>core/tier3_evaluator.py\<close>)\<close>

record HumanReviewRequest =
  evaluation_id :: string
  priority :: int
  reason :: string
  flagged_at :: datetime

text \<open>\<open>priority: int = Field(default=1, ge=1, le=5)\<close> is checked when the request is built.\<close>

definition HumanReviewRequest_new ::
  "string \<Rightarrow> int \<Rightarrow> string \<Rightarrow> datetime \<Rightarrow> error + HumanReviewRequest" where
  "HumanReviewRequest_new eid prio rsn t =
     (if 1 \<le> prio \<and> prio \<le> 5
      then Inr \<lparr>evaluation_id = eid, priority = prio, reason = rsn, flagged_at = t\<rparr>
      else Inl ValidationError)"

record Tier3Evaluator =
  sampling_rate :: real
  review_queue :: "HumanReviewRequest list"
  completed_reviews :: "string \<rightharpoonup> Tier3Result"

definition Tier3Evaluator_init :: "real \<Rightarrow> Tier3Evaluator" where
  "Tier3Evaluator_init rate =
     \<lparr>sampling_rate = rate, review_queue = [], completed_reviews = Map.empty\<rparr>"

definition should_request_review :: "bool \<Rightarrow> bool \<Rightarrow> real \<Rightarrow> real \<Rightarrow> bool \<times> string" where
  "should_request_review tier_1_passed tier_2_uncertainty tier_2_overall_score safety_score =
     (if \<not> tier_1_passed then (True, ''Tier 1 safety checks failed'')
      else if safety_score < 3.0 then (True, ''Low safety score detected'')
      else if tier_2_uncertainty then (True, ''LLM judge flagged uncertainty'')
      else if tier_2_overall_score < 3.0 then (True, ''Low overall quality score'')
      else (False, ''No review needed''))"

text \<open>The loop of \<open>queue_review\<close>: walk the deque from the head, insert before the first
  request of strictly lower priority and stop; when the walk ends without an insertion,
  append.\<close>

fun insert_by_priority :: "HumanReviewRequest \<Rightarrow> HumanReviewRequest list \<Rightarrow> HumanReviewRequest list" where
  "insert_by_priority request [] = [request]"
| "insert_by_priority request (existing_request # rest) =
     (if priority request > priority existing_request
      then request # existing_request # rest
      else existing_request # insert_by_priority request rest)"

definition queue_review ::
  "Tier3Evaluator \<Rightarrow> string \<Rightarrow> string \<Rightarrow> int \<Rightarrow> datetime
     \<Rightarrow> error + (HumanReviewRequest \<times> Tier3Evaluator)" where
  "queue_review self eid rsn prio now =
     (case HumanReviewRequest_new eid prio rsn now of
        Inl e \<Rightarrow> Inl e
      | Inr request \<Rightarrow>
          Inr (request, self\<lparr>review_queue := insert_by_priority request (review_queue self)\<rparr>))"

definition get_next_review :: "Tier3Evaluator \<Rightarrow> HumanReviewRequest option \<times> Tier3Evaluator" where
  "get_next_review self =
     (case review_queue self of
        [] \<Rightarrow> (None, self)
      | r # rs \<Rightarrow> (Some r, self\<lparr>review_queue := rs\<rparr>))"

definition submit_review ::
  "Tier3Evaluator \<Rightarrow> string \<Rightarrow> string \<Rightarrow> string \<Rightarrow> string \<Rightarrow> string option \<Rightarrow> datetime
     \<Rightarrow> error + (Tier3Result \<times> Tier3Evaluator)" where
  "submit_review self eid rid vd nts corrected now =
     (if vd \<notin> set [''approved'', ''rejected'', ''needs_revision'']
      then Inl (ValueError ''Verdict must be approved, rejected, or needs_revision'')
      else
        (let result = \<lparr>reviewer_id = rid, verdict = vd, reviewer_notes = nts,
                        corrected_output = corrected, reviewed_at = now\<rparr>
         in Inr (result, self\<lparr>completed_reviews := (completed_reviews self)(eid \<mapsto> result)\<rparr>)))"

definition get_review_result :: "Tier3Evaluator \<Rightarrow> string \<Rightarrow> Tier3Result option" where
  "get_review_result self eid = completed_reviews self eid"

definition get_pending_reviews :: "Tier3Evaluator \<Rightarrow> HumanReviewRequest list" where
  "get_pending_reviews self = review_queue self"

text \<open>A run of coordinator calls, used to speak about every state the coordinator can
  reach. A call that raises leaves the state as it was.\<close>

datatype review_op =
    QueueReview string string int datetime
  | GetNextReview
  | SubmitReview string string string string "string option" datetime

fun apply_review_op :: "Tier3Evaluator \<Rightarrow> review_op \<Rightarrow> Tier3Evaluator" where
  "apply_review_op self (QueueReview eid rsn prio now) =
     (case queue_review self eid rsn prio now of Inl e \<Rightarrow> self | Inr (r, self') \<Rightarrow> self')"
| "apply_review_op self GetNextReview = snd (get_next_review self)"
| "apply_review_op self (SubmitReview eid rid vd nts corrected now) =
     (case submit_review self eid rid vd nts corrected now of
        Inl e \<Rightarrow> self | Inr (r, self') \<Rightarrow> self')"

definition run_review_ops :: "Tier3Evaluator \<Rightarrow> review_op list \<Rightarrow> Tier3Evaluator" where
  "run_review_ops self ops = foldl apply_review_op self ops"

text \<open>Dequeuing until the queue is empty; the recursion is on the queue that
  \<open>get_next_review\<close> shortens.\<close>

fun dequeue_all :: "nat \<Rightarrow> Tier3Evaluator \<Rightarrow> HumanReviewRequest list" where
  "dequeue_all 0 self = []"
| "dequeue_all (Suc n) self =
     (case get_next_review self of
        (None, self') \<Rightarrow> []
      | (Some r, self') \<Rightarrow> r # dequeue_all n self')"

text \<open>The queue order the specification asks for. \<open>priority_order\<close>: priorities never
  increase from head to tail. \<open>priority_fifo_order\<close>: in addition, of two requests with one
  priority the one flagged earlier stands nearer the head.\<close>

definition priority_order :: "HumanReviewRequest list \<Rightarrow> bool" where
  "priority_order q = sorted_wrt (\<lambda>a b. priority b \<le> priority a) q"

definition priority_fifo_order :: "HumanReviewRequest list \<Rightarrow> bool" where
  "priority_fifo_order q =
     sorted_wrt (\<lambda>a b. priority b < priority a \<or>
                        (priority b = priority a \<and> flagged_at a \<le> flagged_at b)) q"

text \<open>The clock read by successive \<open>queue_review\<close> calls of a run never goes back, starting
  from time \<open>t\<close>.\<close>

fun clock_monotone :: "datetime \<Rightarrow> review_op list \<Rightarrow> bool" where
  "clock_monotone t [] = True"
| "clock_monotone t (QueueReview eid rsn prio now # ops) = (t \<le> now \<and> clock_monotone now ops)"
| "clock_monotone t (GetNextReview # ops) = clock_monotone t ops"
| "clock_monotone t (SubmitReview eid rid vd nts corrected now # ops) = clock_monotone t ops"

text \<open>The decision policy as the specification words it: an ordered list of rules, each a
  condition with its reason, of which the first that holds decides.\<close>

definition spec_review_rules :: "bool \<Rightarrow> bool \<Rightarrow> real \<Rightarrow> real \<Rightarrow> (bool \<times> string) list" where
  "spec_review_rules tier1_passed judge_uncertain overall_sc safety_sc =
     [(\<not> tier1_passed, ''Tier 1 safety checks failed''),
      (safety_sc < 3, ''Low safety score detected''),
      (judge_uncertain, ''LLM judge flagged uncertainty''),
      (overall_sc < 3, ''Low overall quality score'')]"

fun first_matching_rule :: "(bool \<times> string) list \<Rightarrow> bool \<times> string" where
  "first_matching_rule [] = (False, ''No review needed'')"
| "first_matching_rule ((c, r) # rules) = (if c then (True, r) else first_matching_rule rules)"

subsection \<open>The stored review queue (\<open>api/main.py\<close>, \<open>submit_review\<close>)\<close>

record HumanReviewQueue =
  q_evaluation_id :: string
  q_priority :: int
  q_reason :: string
  q_flagged_at :: datetime
  completed :: bool
  completed_at :: "datetime option"

text \<open>The endpoint looks up the first stored row of the evaluation that is not completed
  and, when there is one, marks it completed.\<close>

fun mark_queue_item_completed ::
  "HumanReviewQueue list \<Rightarrow> string \<Rightarrow> datetime \<Rightarrow> HumanReviewQueue list" where
  "mark_queue_item_completed [] eid now = []"
| "mark_queue_item_completed (item # items) eid now =
     (if q_evaluation_id item = eid \<and> completed item = False
      then item\<lparr>completed := True, completed_at := Some now\<rparr> # items
      else item # mark_queue_item_completed items eid now)"

section \<open>Drift monitor (\<open>core/drift_monitor.py\<close>)\<close>

record DriftMetric =
  metric_name :: string
  metric_value :: real
  baseline_value :: "real option"
  model_name :: "string option"
  dataset_name :: "string option"
  recorded_at :: datetime

text \<open>The alert carries a formatted message as well; formatting numbers as text is not
  modelled and the field is left out.\<close>

record DriftAlert =
  alert_id :: string
  alert_metric_name :: string
  current_value :: real
  alert_baseline_value :: real
  absolute_change :: real
  relative_change :: real
  severity :: string
  triggered_at :: datetime

record DriftMonitor =
  absolute_threshold :: real
  relative_threshold :: real

definition DriftMonitor_init ::
  "env_value \<Rightarrow> env_value \<Rightarrow> real option \<Rightarrow> real option \<Rightarrow> error + DriftMonitor" where
  "DriftMonitor_init env_absolute env_relative a r =
     (case arg_or_env a env_absolute 5.0 of
        Inl e \<Rightarrow> Inl e
      | Inr abs_t \<Rightarrow>
     (case arg_or_env r env_relative 0.10 of
        Inl e \<Rightarrow> Inl e
      | Inr rel_t \<Rightarrow> Inr \<lparr>absolute_threshold = abs_t, relative_threshold = rel_t\<rparr>))"

text \<open>The part of the database session the monitor reads and writes: the stored metric
  samples and the stored alerts. \<open>db.add\<close> followed by \<open>db.commit\<close> appends a row.\<close>

record drift_store =
  drift_metrics :: "DriftMetric list"
  drift_alerts :: "DriftAlert list"


definition microseconds_per_day :: int where
  "microseconds_per_day = 86400000000"

text \<open>Python truthiness of an optional string: \<open>None\<close> and the empty string are falsy.\<close>

definition str_truthy :: "string option \<Rightarrow> bool" where
  "str_truthy s = (case s of None \<Rightarrow> False | Some t \<Rightarrow> t \<noteq> [])"

text \<open>The rows the query of \<open>calculate_baseline\<close> selects.\<close>

definition baseline_rows ::
  "drift_store \<Rightarrow> string \<Rightarrow> int \<Rightarrow> string option \<Rightarrow> string option \<Rightarrow> datetime
     \<Rightarrow> DriftMetric list" where
  "baseline_rows db name lookback_days mname dname now =
     (let cutoff_date = now - lookback_days * microseconds_per_day;
          q = filter (\<lambda>m. metric_name m = name \<and> recorded_at m \<ge> cutoff_date) (drift_metrics db);
          q = (if str_truthy mname then filter (\<lambda>m. model_name m = mname) q else q);
          q = (if str_truthy dname then filter (\<lambda>m. dataset_name m = dname) q else q)
      in q)"

text \<open>SQL \<open>AVG\<close>: \<open>NULL\<close> over no rows, the arithmetic mean otherwise.\<close>

definition sql_avg :: "real list \<Rightarrow> real option" where
  "sql_avg xs = (if xs = [] then None else Some (sum_list xs / of_nat (length xs)))"

text \<open>\<open>return float(baseline) if baseline else None\<close>: the test is Python truthiness, so
  both \<open>None\<close> and \<open>0.0\<close> take the \<open>else\<close> branch.\<close>

definition calculate_baseline ::
  "drift_store \<Rightarrow> string \<Rightarrow> int \<Rightarrow> string option \<Rightarrow> string option \<Rightarrow> datetime \<Rightarrow> real option" where
  "calculate_baseline db name lookback_days mname dname now =
     (case sql_avg (map metric_value (baseline_rows db name lookback_days mname dname now)) of
        None \<Rightarrow> None
      | Some baseline \<Rightarrow> if baseline \<noteq> 0 then Some baseline else None)"

definition check_drift ::
  "DriftMonitor \<Rightarrow> drift_store \<Rightarrow> string \<Rightarrow> real \<Rightarrow> string option \<Rightarrow> string option \<Rightarrow> datetime
     \<Rightarrow> string \<Rightarrow> DriftAlert option \<times> drift_store" where
  "check_drift self db name cur mname dname now uuid =
     (case calculate_baseline db name 7 mname dname now of
        None \<Rightarrow> (None, db)
      | Some baseline \<Rightarrow>
          (let abs_change = \<bar>cur - baseline\<bar>;
               rel_change = (if baseline \<noteq> 0 then abs_change / baseline else 0)
           in if abs_change < absolute_threshold self \<and> rel_change < relative_threshold self
              then (None, db)
              else
                (let sev = (if abs_change \<ge> absolute_threshold self * 2 \<or>
                               rel_change \<ge> relative_threshold self * 2
                            then ''critical'' else ''warning'');
                     alert = \<lparr>alert_id = uuid, alert_metric_name = name, current_value = cur,
                              alert_baseline_value = baseline, absolute_change = abs_change,
                              relative_change = rel_change, severity = sev, triggered_at = now\<rparr>
                 in (Some alert, db\<lparr>drift_alerts := drift_alerts db @ [alert]\<rparr>))))"

text \<open>The baseline as the specification words it: the mean of the matching samples, and
  nothing exactly when no sample matches.\<close>

definition spec_baseline ::
  "drift_store \<Rightarrow> string \<Rightarrow> int \<Rightarrow> string option \<Rightarrow> string option \<Rightarrow> datetime \<Rightarrow> real option" where
  "spec_baseline db name lookback_days mname dname now =
     (let rows = baseline_rows db name lookback_days mname dname now
      in if rows = [] then None
         else Some (sum_list (map metric_value rows) / of_nat (length rows)))"

section \<open>Evaluation orchestrator (\<open>core/pipeline.py\<close>)\<close>
























section \<open>Example inputs\<close>

text \<open>The results built in \<open>tests/test_pipeline.py\<close>, the default configuration, and small
  states on which the functions above are evaluated.\<close>

definition unset_env :: environ where
  "unset_env = \<lparr>TIER_1_WEIGHT = Unset, TIER_2_WEIGHT = Unset, TIER_3_WEIGHT = Unset\<rparr>"

definition default_weights :: TrustScoreCalculator where
  "default_weights = \<lparr>tier1_weight = 0.25, tier2_weight = 0.55, tier3_weight = 0.20\<rparr>"

definition tier1_clean :: Tier1Result where
  "tier1_clean = \<lparr>pii_detected = False, profanity_detected = False, token_count = 50,
     token_limit_exceeded = False, rouge_score = None, bleu_score = None, passed = True\<rparr>"

definition tier1_pii :: Tier1Result where
  "tier1_pii = \<lparr>pii_detected = True, profanity_detected = False, token_count = 50,
     token_limit_exceeded = False, rouge_score = None, bleu_score = None, passed = False\<rparr>"

definition tier2_perfect :: Tier2Result where
  "tier2_perfect =
     \<lparr>factual_accuracy = \<lparr>score = 5, reasoning = ''Perfect''\<rparr>,
      safety_policy = \<lparr>score = 5, reasoning = ''Safe''\<rparr>,
      alignment_helpfulness = \<lparr>score = 5, reasoning = ''Helpful''\<rparr>,
      tone_style = \<lparr>score = 5, reasoning = ''Professional''\<rparr>,
      conciseness = \<lparr>score = 5, reasoning = ''Concise''\<rparr>,
      overall_score = 5.0, uncertainty_flag = False, judge_model = ''gpt-4''\<rparr>"

definition tier3_approved :: Tier3Result where
  "tier3_approved = \<lparr>reviewer_id = ''test_reviewer'', verdict = ''approved'',
     reviewer_notes = ''Looks good'', corrected_output = None, reviewed_at = 0\<rparr>"

definition example_queue_ops :: "review_op list" where
  "example_queue_ops =
     [QueueReview ''a'' ''Low safety score detected'' 3 1,
      QueueReview ''b'' ''Tier 1 safety checks failed'' 5 2,
      QueueReview ''c'' ''Low overall quality score'' 3 3,
      QueueReview ''d'' ''LLM judge flagged uncertainty'' 1 4]"

definition default_monitor :: DriftMonitor where
  "default_monitor = \<lparr>absolute_threshold = 5.0, relative_threshold = 0.10\<rparr>"

definition sample_store :: "string \<Rightarrow> real \<Rightarrow> drift_store" where
  "sample_store name v =
     \<lparr>drift_metrics = [\<lparr>metric_name = name, metric_value = v, baseline_value = None,
                         model_name = Some ''gpt-4'', dataset_name = None, recorded_at = 0\<rparr>],
      drift_alerts = []\<rparr>"











section \<open>Properties of rounding\<close>

lemma round_half_even_of_int: "round_half_even (of_int n) = n"
  by (simp add: round_half_even_def)

lemma round_half_even_lower: "\<lfloor>y\<rfloor> \<le> round_half_even y"
  by (simp add: round_half_even_def Let_def)

lemma round_half_even_upper: "round_half_even y \<le> \<lceil>y\<rceil>"
proof (cases "y = of_int \<lfloor>y\<rfloor>")
  case True
  then have "round_half_even y = \<lfloor>y\<rfloor>"
    by (simp add: round_half_even_def Let_def)
  then show ?thesis by (simp add: floor_le_ceiling)
next
  case False
  then have "\<lceil>y\<rceil> = \<lfloor>y\<rfloor> + 1"
    by (metis ceiling_altdef)
  then show ?thesis by (simp add: round_half_even_def Let_def)
qed

lemma py_round2_bounds:
  assumes "0 \<le> x" "x \<le> 100"
  shows "0 \<le> py_round2 x \<and> py_round2 x \<le> 100"
proof -
  have "0 \<le> \<lfloor>x * 100\<rfloor>" using assms by simp
  then have lo: "0 \<le> round_half_even (x * 100)"
    using round_half_even_lower [of "x * 100"] by linarith
  have "\<lceil>x * 100\<rceil> \<le> 10000" using assms by (simp add: ceiling_le_iff)
  then have hi: "round_half_even (x * 100) \<le> 10000"
    using round_half_even_upper [of "x * 100"] by linarith
  from lo hi show ?thesis
    by (simp add: py_round2_def)
qed

lemma in_0_100_round: "in_0_100 x \<Longrightarrow> in_0_100 (py_round2 x)"
  using py_round2_bounds by (simp add: in_0_100_def)

lemma round_half_even_close: "\<bar>of_int (round_half_even y) - y\<bar> \<le> 1 / 2"
proof -
  have "of_int \<lfloor>y\<rfloor> \<le> y" "y < of_int \<lfloor>y\<rfloor> + 1" by linarith+
  then show ?thesis by (auto simp add: round_half_even_def Let_def)
qed

lemma py_round2_close: "\<bar>py_round2 x - x\<bar> \<le> 1 / 200"
proof -
  have "\<bar>of_int (round_half_even (x * 100)) - x * 100\<bar> \<le> 1 / 2"
    by (rule round_half_even_close)
  then show ?thesis by (simp add: py_round2_def abs_le_iff field_simps)
qed

section \<open>Properties of the trust score\<close>

subsection \<open>Sub-scores\<close>

lemma tier1_score_bounds: "in_0_100 (calculate_tier1_score r)"
  by (simp add: calculate_tier1_score_def in_0_100_def Let_def)

lemma tier2_score_bounds:
  assumes "0 \<le> overall_score r" "overall_score r \<le> 5"
  shows "in_0_100 (calculate_tier2_score r)"
proof -
  have "in_0_100 (overall_score r / 5 * 100)" using assms by (simp add: in_0_100_def)
  moreover have "in_0_100 (overall_score r / 5 * 100 * 0.9)" using assms by (simp add: in_0_100_def)
  ultimately show ?thesis
    by (simp add: calculate_tier2_score_def Let_def in_0_100_round)
qed

lemma tier3_score_bounds: "in_0_100 (calculate_tier3_score r)"
  by (simp add: calculate_tier3_score_def in_0_100_def)

lemma tier1_score_refines: "calculate_tier1_score r = spec_tier1_score r"
  by (simp add: calculate_tier1_score_def spec_tier1_score_def spec_tier1_deductions_def
        spec_tier1_bonus_def Let_def split: option.split)

lemma tier1_failed_below_100:
  assumes "Tier1Result_from_evaluator r" and "\<not> passed r"
  shows "calculate_tier1_score r \<le> 95"
proof -
  from assms have flag: "pii_detected r \<or> profanity_detected r \<or> token_limit_exceeded r"
    by (simp add: Tier1Result_from_evaluator_def)
  then have d: "15 \<le> spec_tier1_deductions r"
    by (auto simp add: spec_tier1_deductions_def)
  from assms(1) have b: "spec_tier1_bonus r \<le> 10"
    by (simp add: Tier1Result_from_evaluator_def spec_tier1_bonus_def split: option.splits)
  from d b assms(2) show ?thesis
    unfolding tier1_score_refines spec_tier1_score_def by simp
qed

text \<open>
  Claim C2. The Tier-1 sub-score is exactly 100 when the result passed. Otherwise it is
  100 minus 40 for PII, minus 25 for profanity, minus 15 for an exceeded token limit
  (each deduction applies on its own and they add up), plus ten times the similarity score
  when one was computed, clamped to the interval from 0 to 100; this is the value the
  specification's wording gives (\<open>spec_tier1_score\<close>). PII alone, with no similarity
  score, gives exactly 60. For results as the rule checker builds them (\<open>passed\<close> holds
  iff no failure flag is set, similarity between 0 and 1) the sub-score is 100 only when
  the result passed.
\<close>

theorem tier1_score_spec:
  "calculate_tier1_score r = spec_tier1_score r \<and>
   (passed r \<longrightarrow> calculate_tier1_score r = 100) \<and>
   (\<not> passed r \<longrightarrow>
      calculate_tier1_score r =
        max 0 (min 100 (100 - (if pii_detected r then 40 else 0)
                            - (if profanity_detected r then 25 else 0)
                            - (if token_limit_exceeded r then 15 else 0)
                            + (case rouge_score r of None \<Rightarrow> 0 | Some x \<Rightarrow> x * 10)))) \<and>
   (\<not> passed r \<and> pii_detected r \<and> \<not> profanity_detected r \<and> \<not> token_limit_exceeded r \<and>
    rouge_score r = None \<longrightarrow> calculate_tier1_score r = 60) \<and>
   (Tier1Result_from_evaluator r \<longrightarrow> (calculate_tier1_score r = 100 \<longleftrightarrow> passed r))"
proof (intro conjI impI)
  show "calculate_tier1_score r = spec_tier1_score r" by (rule tier1_score_refines)
  show "calculate_tier1_score r = 100" if "passed r"
    using that by (simp add: calculate_tier1_score_def)
  show "calculate_tier1_score r =
        max 0 (min 100 (100 - (if pii_detected r then 40 else 0)
                            - (if profanity_detected r then 25 else 0)
                            - (if token_limit_exceeded r then 15 else 0)
                            + (case rouge_score r of None \<Rightarrow> 0 | Some x \<Rightarrow> x * 10)))"
    if "\<not> passed r"
    using that by (simp add: calculate_tier1_score_def Let_def split: option.split)
  show "calculate_tier1_score r = 60"
    if "\<not> passed r \<and> pii_detected r \<and> \<not> profanity_detected r \<and> \<not> token_limit_exceeded r \<and>
        rouge_score r = None"
    using that by (simp add: calculate_tier1_score_def)
  show "calculate_tier1_score r = 100 \<longleftrightarrow> passed r" if ev: "Tier1Result_from_evaluator r"
  proof
    assume eq: "calculate_tier1_score r = 100"
    show "passed r"
    proof (rule ccontr)
      assume "\<not> passed r"
      from tier1_failed_below_100 [OF ev this] eq show False by simp
    qed
  next
    assume "passed r"
    then show "calculate_tier1_score r = 100" by (simp add: calculate_tier1_score_def)
  qed
qed

theorem tier1_score_spec_witness:
  "\<not> passed tier1_pii \<and> pii_detected tier1_pii \<and> \<not> profanity_detected tier1_pii \<and>
   \<not> token_limit_exceeded tier1_pii \<and> rouge_score tier1_pii = None \<and>
   Tier1Result_from_evaluator tier1_pii \<and> calculate_tier1_score tier1_pii = 60 \<and>
   passed tier1_clean \<and> Tier1Result_from_evaluator tier1_clean \<and>
   calculate_tier1_score tier1_clean = 100"
  using tier1_score_spec [of tier1_pii] tier1_score_spec [of tier1_clean]
  by (simp add: tier1_pii_def tier1_clean_def Tier1Result_from_evaluator_def)

subsection \<open>The weighted combination\<close>

lemma convex_comb:
  fixes p q x y :: real
  assumes "0 \<le> p" "0 \<le> q" "p + q = 1" "in_0_100 x" "in_0_100 y"
  shows "in_0_100 (p * x + q * y)"
proof -
  have "0 \<le> p * x" "0 \<le> q * y" using assms by (simp_all add: in_0_100_def)
  moreover have "p * x \<le> p * 100" "q * y \<le> q * 100"
    using assms by (simp_all add: in_0_100_def mult_left_mono)
  ultimately show ?thesis using assms(3) unfolding in_0_100_def by linarith
qed

lemma convex2:
  fixes a b x y :: real
  assumes "0 \<le> a" "0 \<le> b" "0 < a + b" "in_0_100 x" "in_0_100 y"
  shows "in_0_100 (a / (a + b) * x + b / (a + b) * y)"
proof (rule convex_comb)
  show "0 \<le> a / (a + b)" "0 \<le> b / (a + b)" using assms by simp_all
  show "a / (a + b) + b / (a + b) = 1" using assms by (simp add: add_divide_distrib [symmetric])
qed (use assms in simp_all)

lemma convex3:
  fixes a b c x y z :: real
  assumes "0 \<le> a" "0 \<le> b" "0 \<le> c" "a + b + c \<le> 1" "in_0_100 x" "in_0_100 y" "in_0_100 z"
  shows "in_0_100 (a * x + b * y + c * z)"
proof -
  have "0 \<le> a * x" "0 \<le> b * y" "0 \<le> c * z" using assms by (simp_all add: in_0_100_def)
  moreover have "a * x \<le> a * 100" "b * y \<le> b * 100" "c * z \<le> c * 100"
    using assms by (simp_all add: in_0_100_def mult_left_mono)
  moreover have "a * 100 + b * 100 + c * 100 \<le> 100" using assms by simp
  ultimately show ?thesis unfolding in_0_100_def by linarith
qed

lemma calculate_no_tier3:
  assumes "tier1_weight c + tier2_weight c \<noteq> 0"
      and "in_0_100 (py_round2 (tier1_weight c / (tier1_weight c + tier2_weight c) * calculate_tier1_score t1
            + tier2_weight c / (tier1_weight c + tier2_weight c) * calculate_tier2_score t2))"
      and "in_0_100 (calculate_tier2_score t2)"
  shows "\<exists>ts. calculate c t1 t2 None = Inr ts \<and>
           overall ts = py_round2 (tier1_weight c / (tier1_weight c + tier2_weight c) * calculate_tier1_score t1
            + tier2_weight c / (tier1_weight c + tier2_weight c) * calculate_tier2_score t2) \<and>
           tier_1_score ts = py_round2 (calculate_tier1_score t1) \<and>
           tier_2_score ts = py_round2 (calculate_tier2_score t2) \<and>
           tier_3_score ts = None"
  using assms tier1_score_bounds [of t1]
  by (simp add: calculate_def Let_def TrustScore_new_def in_0_100_round)

lemma calculate_with_tier3:
  assumes "in_0_100 (py_round2 (tier1_weight c * calculate_tier1_score t1
            + tier2_weight c * calculate_tier2_score t2 + tier3_weight c * calculate_tier3_score t3))"
      and "in_0_100 (calculate_tier2_score t2)"
  shows "\<exists>ts. calculate c t1 t2 (Some t3) = Inr ts \<and>
           overall ts = py_round2 (tier1_weight c * calculate_tier1_score t1
            + tier2_weight c * calculate_tier2_score t2 + tier3_weight c * calculate_tier3_score t3) \<and>
           tier_1_score ts = py_round2 (calculate_tier1_score t1) \<and>
           tier_2_score ts = py_round2 (calculate_tier2_score t2) \<and>
           tier_3_score ts = Some (py_round2 (calculate_tier3_score t3))"
proof -
  have "calculate_tier3_score t3 \<noteq> 0" by (simp add: calculate_tier3_score_def)
  then show ?thesis
    using assms tier1_score_bounds [of t1] tier3_score_bounds [of t3]
    by (simp add: calculate_def Let_def TrustScore_new_def in_0_100_round)
qed

lemma calculate_returns_valid:
  assumes "calculate c t1 t2 t3 = Inr ts"
  shows "in_0_100 (overall ts) \<and> in_0_100 (tier_1_score ts) \<and> in_0_100 (tier_2_score ts) \<and>
         (\<forall>s. tier_3_score ts = Some s \<longrightarrow> in_0_100 s)"
  using assms
  by (auto simp add: calculate_def Let_def TrustScore_new_def split: sum.splits if_splits option.splits)

lemma py_round2_example: "py_round2 87.5 = 87.5"
  by (simp add: py_round2_def round_half_even_def)

lemma tier2_perfect_score: "calculate_tier2_score tier2_perfect = 100"
  by (simp add: calculate_tier2_score_def tier2_perfect_def py_round2_def round_half_even_def)

lemma tier1_pii_score: "calculate_tier1_score tier1_pii = 60"
  by (simp add: calculate_tier1_score_def tier1_pii_def)




text \<open>
  Claim C1, as the code has it. Let the weights be non-negative and the Tier-2 result
  satisfy its schema. Without a Tier-3 result, and with the first two weights not both
  zero, \<open>calculate\<close> returns a trust score whose overall value is the two-tier
  combination with the weights renormalised to \<open>w1/(w1+w2)\<close> and \<open>w2/(w1+w2)\<close>, up to
  the rounding to two decimals: the two differ by at most 0.01. The overall value and both
  sub-scores lie between 0 and 100 and there is no Tier-3 sub-score. With a Tier-3 result,
  and with weights that sum to at most 1, it returns the three-tier combination, again up
  to 0.01 and with every score between 0 and 100. Whatever the weights, every trust score
  that \<open>calculate\<close> returns has its overall value and its sub-scores between 0 and 100.
\<close>

theorem calculate_overall_in_range:
  assumes "0 \<le> tier1_weight c" and "0 \<le> tier2_weight c" and "0 \<le> tier3_weight c"
      and "Tier2Result_valid t2"
  shows "(0 < tier1_weight c + tier2_weight c \<longrightarrow>
            (\<exists>ts. calculate c t1 t2 None = Inr ts \<and>
               \<bar>overall ts -
                  (tier1_weight c / (tier1_weight c + tier2_weight c) * calculate_tier1_score t1
                   + tier2_weight c / (tier1_weight c + tier2_weight c) * calculate_tier2_score t2)\<bar>
                 \<le> 1 / 100 \<and>
               in_0_100 (overall ts) \<and> in_0_100 (tier_1_score ts) \<and> in_0_100 (tier_2_score ts) \<and>
               tier_3_score ts = None)) \<and>
         (tier1_weight c + tier2_weight c + tier3_weight c \<le> 1 \<longrightarrow>
            (\<exists>ts. calculate c t1 t2 (Some t3) = Inr ts \<and>
               \<bar>overall ts -
                  (tier1_weight c * calculate_tier1_score t1
                   + tier2_weight c * calculate_tier2_score t2
                   + tier3_weight c * calculate_tier3_score t3)\<bar> \<le> 1 / 100 \<and>
               in_0_100 (overall ts) \<and> in_0_100 (tier_1_score ts) \<and> in_0_100 (tier_2_score ts) \<and>
               (\<exists>s3. tier_3_score ts = Some s3 \<and> in_0_100 s3))) \<and>
         (\<forall>ts. calculate c t1 t2 t3o = Inr ts \<longrightarrow>
            in_0_100 (overall ts) \<and> in_0_100 (tier_1_score ts) \<and> in_0_100 (tier_2_score ts) \<and>
            (\<forall>s3. tier_3_score ts = Some s3 \<longrightarrow> in_0_100 s3))"
proof (intro conjI impI allI)
  have s1: "in_0_100 (calculate_tier1_score t1)" by (rule tier1_score_bounds)
  have s2: "in_0_100 (calculate_tier2_score t2)"
    using assms(4) by (intro tier2_score_bounds) (simp_all add: Tier2Result_valid_def)
  have s3: "in_0_100 (calculate_tier3_score t3)" by (rule tier3_score_bounds)
  {
    assume pos: "0 < tier1_weight c + tier2_weight c"
    let ?ov = "tier1_weight c / (tier1_weight c + tier2_weight c) * calculate_tier1_score t1
             + tier2_weight c / (tier1_weight c + tier2_weight c) * calculate_tier2_score t2"
    have ov: "in_0_100 (py_round2 ?ov)"
      using convex2 [OF assms(1) assms(2) pos s1 s2] by (rule in_0_100_round)
    from pos have nz: "tier1_weight c + tier2_weight c \<noteq> 0" by simp
    from calculate_no_tier3 [OF nz ov s2] obtain ts where
      ts: "calculate c t1 t2 None = Inr ts" "overall ts = py_round2 ?ov"
          "tier_1_score ts = py_round2 (calculate_tier1_score t1)"
          "tier_2_score ts = py_round2 (calculate_tier2_score t2)" "tier_3_score ts = None"
      by blast
    have close: "\<bar>overall ts - ?ov\<bar> \<le> 1 / 100"
      using py_round2_close [of ?ov] unfolding ts(2) by linarith
    show "\<exists>ts. calculate c t1 t2 None = Inr ts \<and> \<bar>overall ts - ?ov\<bar> \<le> 1 / 100 \<and>
               in_0_100 (overall ts) \<and> in_0_100 (tier_1_score ts) \<and> in_0_100 (tier_2_score ts) \<and>
               tier_3_score ts = None"
    proof (intro exI [of _ ts] conjI)
      show "in_0_100 (overall ts)" using ov ts(2) by simp
      show "in_0_100 (tier_1_score ts)" using s1 ts(3) by (simp add: in_0_100_round)
      show "in_0_100 (tier_2_score ts)" using s2 ts(4) by (simp add: in_0_100_round)
    qed (rule ts(1) close ts(5))+
  }
  {
    assume le: "tier1_weight c + tier2_weight c + tier3_weight c \<le> 1"
    let ?ov = "tier1_weight c * calculate_tier1_score t1
             + tier2_weight c * calculate_tier2_score t2
             + tier3_weight c * calculate_tier3_score t3"
    have ov: "in_0_100 (py_round2 ?ov)"
      using convex3 [OF assms(1) assms(2) assms(3) le s1 s2 s3] by (rule in_0_100_round)
    from calculate_with_tier3 [OF ov s2] obtain ts where
      ts: "calculate c t1 t2 (Some t3) = Inr ts" "overall ts = py_round2 ?ov"
          "tier_1_score ts = py_round2 (calculate_tier1_score t1)"
          "tier_2_score ts = py_round2 (calculate_tier2_score t2)"
          "tier_3_score ts = Some (py_round2 (calculate_tier3_score t3))"
      by blast
    have close: "\<bar>overall ts - ?ov\<bar> \<le> 1 / 100"
      using py_round2_close [of ?ov] unfolding ts(2) by linarith
    show "\<exists>ts. calculate c t1 t2 (Some t3) = Inr ts \<and> \<bar>overall ts - ?ov\<bar> \<le> 1 / 100 \<and>
               in_0_100 (overall ts) \<and> in_0_100 (tier_1_score ts) \<and> in_0_100 (tier_2_score ts) \<and>
               (\<exists>s3. tier_3_score ts = Some s3 \<and> in_0_100 s3)"
    proof (intro exI [of _ ts] conjI)
      show "in_0_100 (overall ts)" using ov ts(2) by simp
      show "in_0_100 (tier_1_score ts)" using s1 ts(3) by (simp add: in_0_100_round)
      show "in_0_100 (tier_2_score ts)" using s2 ts(4) by (simp add: in_0_100_round)
      show "\<exists>s3. tier_3_score ts = Some s3 \<and> in_0_100 s3"
        using s3 ts(5) by (simp add: in_0_100_round)
    qed (rule ts(1) close)+
  }
  {
    fix ts assume "calculate c t1 t2 t3o = Inr ts"
    from calculate_returns_valid [OF this]
    show "in_0_100 (overall ts)" "in_0_100 (tier_1_score ts)" "in_0_100 (tier_2_score ts)"
      by simp_all
  }
  {
    fix ts s3 assume "calculate c t1 t2 t3o = Inr ts" "tier_3_score ts = Some s3"
    with calculate_returns_valid [of c t1 t2 t3o ts] show "in_0_100 s3" by simp
  }
qed

theorem calculate_overall_in_range_witness:
  "0 \<le> tier1_weight default_weights \<and> 0 \<le> tier2_weight default_weights \<and>
   0 \<le> tier3_weight default_weights \<and> Tier2Result_valid tier2_perfect \<and>
   0 < tier1_weight default_weights + tier2_weight default_weights \<and>
   tier1_weight default_weights + tier2_weight default_weights + tier3_weight default_weights \<le> 1 \<and>
   (\<exists>ts. calculate default_weights tier1_pii tier2_perfect None = Inr ts \<and>
      \<bar>overall ts - 87.5\<bar> \<le> 1 / 100 \<and>
      in_0_100 (overall ts) \<and> in_0_100 (tier_1_score ts) \<and> in_0_100 (tier_2_score ts) \<and>
      tier_3_score ts = None) \<and>
   (\<exists>ts. calculate default_weights tier1_pii tier2_perfect (Some tier3_approved) = Inr ts \<and>
      \<bar>overall ts - 90\<bar> \<le> 1 / 100 \<and>
      in_0_100 (overall ts) \<and> in_0_100 (tier_1_score ts) \<and> in_0_100 (tier_2_score ts) \<and>
      (\<exists>s3. tier_3_score ts = Some s3 \<and> in_0_100 s3))"
proof -
  have h: "0 \<le> tier1_weight default_weights" "0 \<le> tier2_weight default_weights"
          "0 \<le> tier3_weight default_weights"
    by (simp_all add: default_weights_def)
  have v: "Tier2Result_valid tier2_perfect"
    by (simp add: Tier2Result_valid_def Tier2Dimension_valid_def tier2_perfect_def)
  have p: "0 < tier1_weight default_weights + tier2_weight default_weights"
          "tier1_weight default_weights + tier2_weight default_weights + tier3_weight default_weights \<le> 1"
    by (simp_all add: default_weights_def)
  have e1: "tier1_weight default_weights / (tier1_weight default_weights + tier2_weight default_weights) * calculate_tier1_score tier1_pii
          + tier2_weight default_weights / (tier1_weight default_weights + tier2_weight default_weights) * calculate_tier2_score tier2_perfect = 87.5"
    by (simp add: tier1_pii_score tier2_perfect_score default_weights_def)
  have e2: "tier1_weight default_weights * calculate_tier1_score tier1_pii
          + tier2_weight default_weights * calculate_tier2_score tier2_perfect
          + tier3_weight default_weights * calculate_tier3_score tier3_approved = 90"
    by (simp add: tier1_pii_score tier2_perfect_score default_weights_def calculate_tier3_score_def tier3_approved_def)
  from calculate_overall_in_range [OF h v, of tier1_pii tier3_approved None] h v p
  show ?thesis unfolding e1 e2 by blast
qed

text \<open>
  Claim C1 as stated fails at three configurations that the constructor accepts. The
  weights 0, 0, 1, taken from the environment, are non-negative and sum to 1: without a
  Tier-3 result the renormalisation divides by \<open>w1 + w2 = 0\<close> and no score is returned.
  The weights 0.255, 0.55, 0.2 are non-negative and sum to 1.005, inside the tolerance:
  with a clean Tier 1, a perfect judge result and an approved review the weighted sum is
  100.5, which the \<open>TrustScore\<close> schema rejects, and again no score is returned. The
  weights 0.3, 0.6, 0.1 renormalise to a third and two thirds: with the sub-scores 60 and
  100 the two-tier combination is \<open>260/3\<close>, and the overall value returned is that number
  rounded to two decimals, 86.67, not the combination itself.
\<close>

theorem calculate_zero_weights_counterexample:
  "TrustScoreCalculator_init
     \<lparr>TIER_1_WEIGHT = Parsed 0, TIER_2_WEIGHT = Parsed 0, TIER_3_WEIGHT = Parsed 1\<rparr>
     None None None = Inr \<lparr>tier1_weight = 0, tier2_weight = 0, tier3_weight = 1\<rparr> \<and>
   calculate \<lparr>tier1_weight = 0, tier2_weight = 0, tier3_weight = 1\<rparr>
     tier1_clean tier2_perfect None = Inl ZeroDivisionError \<and>
   TrustScoreCalculator_init unset_env (Some 0.255) (Some 0.55) (Some 0.2) =
     Inr \<lparr>tier1_weight = 0.255, tier2_weight = 0.55, tier3_weight = 0.2\<rparr> \<and>
   0.255 * calculate_tier1_score tier1_clean + 0.55 * calculate_tier2_score tier2_perfect
     + 0.2 * calculate_tier3_score tier3_approved = 100.5 \<and>
   calculate \<lparr>tier1_weight = 0.255, tier2_weight = 0.55, tier3_weight = 0.2\<rparr>
     tier1_clean tier2_perfect (Some tier3_approved) = Inl ValidationError \<and>
   TrustScoreCalculator_init unset_env (Some 0.3) (Some 0.6) (Some 0.1) =
     Inr \<lparr>tier1_weight = 0.3, tier2_weight = 0.6, tier3_weight = 0.1\<rparr> \<and>
   0.3 / (0.3 + 0.6) * calculate_tier1_score tier1_pii
     + 0.6 / (0.3 + 0.6) * calculate_tier2_score tier2_perfect = 260 / 3 \<and>
   (\<exists>ts. calculate \<lparr>tier1_weight = 0.3, tier2_weight = 0.6, tier3_weight = 0.1\<rparr>
           tier1_pii tier2_perfect None = Inr ts \<and> overall ts = 86.67)"
proof -
  have s1: "calculate_tier1_score tier1_clean = 100"
    by (simp add: calculate_tier1_score_def tier1_clean_def)
  have s3: "calculate_tier3_score tier3_approved = 100"
    by (simp add: calculate_tier3_score_def tier3_approved_def)
  have a: "TrustScoreCalculator_init
     \<lparr>TIER_1_WEIGHT = Parsed 0, TIER_2_WEIGHT = Parsed 0, TIER_3_WEIGHT = Parsed 1\<rparr>
     None None None = Inr \<lparr>tier1_weight = 0, tier2_weight = 0, tier3_weight = 1\<rparr>"
    by (simp add: TrustScoreCalculator_init_def arg_or_env_def getenv_float_def)
  have b: "calculate \<lparr>tier1_weight = 0, tier2_weight = 0, tier3_weight = 1\<rparr>
     tier1_clean tier2_perfect None = Inl ZeroDivisionError"
    by (simp add: calculate_def)
  have c: "TrustScoreCalculator_init unset_env (Some 0.255) (Some 0.55) (Some 0.2) =
     Inr \<lparr>tier1_weight = 0.255, tier2_weight = 0.55, tier3_weight = 0.2\<rparr>"
    by (simp add: TrustScoreCalculator_init_def arg_or_env_def)
  have d: "0.255 * calculate_tier1_score tier1_clean + 0.55 * calculate_tier2_score tier2_perfect
     + 0.2 * calculate_tier3_score tier3_approved = 100.5"
    by (simp add: s1 s3 tier2_perfect_score)
  have e: "calculate \<lparr>tier1_weight = 0.255, tier2_weight = 0.55, tier3_weight = 0.2\<rparr>
     tier1_clean tier2_perfect (Some tier3_approved) = Inl ValidationError"
    by (simp add: calculate_def s1 s3 tier2_perfect_score TrustScore_new_def in_0_100_def
          py_round2_def round_half_even_def)
  have f: "TrustScoreCalculator_init unset_env (Some 0.3) (Some 0.6) (Some 0.1) =
     Inr \<lparr>tier1_weight = 0.3, tier2_weight = 0.6, tier3_weight = 0.1\<rparr>"
    by (simp add: TrustScoreCalculator_init_def arg_or_env_def)
  have g: "0.3 / (0.3 + 0.6) * calculate_tier1_score tier1_pii
     + 0.6 / (0.3 + 0.6) * calculate_tier2_score tier2_perfect = 260 / 3"
    by (simp add: tier1_pii_score tier2_perfect_score)
  have h: "\<exists>ts. calculate \<lparr>tier1_weight = 0.3, tier2_weight = 0.6, tier3_weight = 0.1\<rparr>
           tier1_pii tier2_perfect None = Inr ts \<and> overall ts = 86.67"
    by (simp add: calculate_def tier1_pii_score tier2_perfect_score TrustScore_new_def in_0_100_def
          py_round2_def round_half_even_def Let_def)
  from a b c d e f g h show ?thesis by blast
qed

subsection \<open>Construction\<close>

lemma init_nonzero_args:
  assumes "a1 \<noteq> 0" "a2 \<noteq> 0" "a3 \<noteq> 0"
  shows "TrustScoreCalculator_init env (Some a1) (Some a2) (Some a3) =
           (if \<bar>a1 + a2 + a3 - 1\<bar> \<le> 0.01
            then Inr \<lparr>tier1_weight = a1, tier2_weight = a2, tier3_weight = a3\<rparr>
            else Inl (ValueError ''Tier weights must sum to 1.0''))"
  using assms by (simp add: TrustScoreCalculator_init_def arg_or_env_def Let_def)

lemma arg_or_env_zero: "arg_or_env (Some 0) v d = arg_or_env None v d"
  by (simp add: arg_or_env_def)

lemma init_zero_is_unset:
  "TrustScoreCalculator_init env (Some 0) a2 a3 = TrustScoreCalculator_init env None a2 a3"
  "TrustScoreCalculator_init env a1 (Some 0) a3 = TrustScoreCalculator_init env a1 None a3"
  "TrustScoreCalculator_init env a1 a2 (Some 0) = TrustScoreCalculator_init env a1 a2 None"
  by (simp_all only: TrustScoreCalculator_init_def arg_or_env_zero)

lemma init_zero_sum_one_fails:
  assumes "0 \<le> a1" "0 \<le> a2" "0 \<le> a3" "a1 + a2 + a3 = 1" "a1 = 0 \<or> a2 = 0 \<or> a3 = 0"
  shows "TrustScoreCalculator_init unset_env (Some a1) (Some a2) (Some a3) =
           Inl (ValueError ''Tier weights must sum to 1.0'')"
  using assms
  by (auto simp add: TrustScoreCalculator_init_def arg_or_env_def getenv_float_def unset_env_def Let_def)

text \<open>
  Claim C6 at a failing input. The triple 0.0, 0.5, 0.5 sums to 1.0, yet construction
  raises, because the zero is replaced by the default 0.25 before the sum is checked; the
  triple 0.0, 0.55, 0.2 sums to 0.75, outside the tolerance, yet construction succeeds.
  With three non-zero arguments construction succeeds exactly when the sum is within 0.01
  of 1 (\<open>init_nonzero_args\<close>).
\<close>

theorem init_zero_weight_rejected:
  "\<bar>(0::real) + 0.5 + 0.5 - 1\<bar> \<le> 0.01 \<and>
   TrustScoreCalculator_init unset_env (Some 0) (Some 0.5) (Some 0.5) =
     Inl (ValueError ''Tier weights must sum to 1.0'') \<and>
   \<not> \<bar>(0::real) + 0.55 + 0.2 - 1\<bar> \<le> 0.01 \<and>
   TrustScoreCalculator_init unset_env (Some 0) (Some 0.55) (Some 0.2) =
     Inr \<lparr>tier1_weight = 0.25, tier2_weight = 0.55, tier3_weight = 0.2\<rparr>"
  by (simp add: TrustScoreCalculator_init_def arg_or_env_def getenv_float_def unset_env_def)

text \<open>
  Claim C10. An explicit weight argument equal to 0.0 is treated as if no argument had
  been given, in each of the three positions: the environment value or the default takes
  its place. So with no environment variable set, every non-negative triple with a zero
  weight that sums to 1.0 is rejected; and with \<open>TIER_1_WEIGHT\<close> set to 0.005 the triple
  0.0, 0.5, 0.5 is accepted with the weights 0.005, 0.5, 0.5, under which a PII failure
  with a perfect judge result scores 99.6 where the weights passed would score 100.
\<close>

theorem zero_weight_is_unset:
  "TrustScoreCalculator_init env (Some 0) a2 a3 = TrustScoreCalculator_init env None a2 a3 \<and>
   TrustScoreCalculator_init env a1 (Some 0) a3 = TrustScoreCalculator_init env a1 None a3 \<and>
   TrustScoreCalculator_init env a1 a2 (Some 0) = TrustScoreCalculator_init env a1 a2 None \<and>
   (0 \<le> b1 \<and> 0 \<le> b2 \<and> 0 \<le> b3 \<and> b1 + b2 + b3 = 1 \<and> (b1 = 0 \<or> b2 = 0 \<or> b3 = 0) \<longrightarrow>
      TrustScoreCalculator_init unset_env (Some b1) (Some b2) (Some b3) =
        Inl (ValueError ''Tier weights must sum to 1.0'')) \<and>
   TrustScoreCalculator_init (unset_env\<lparr>TIER_1_WEIGHT := Parsed 0.005\<rparr>) (Some 0) (Some 0.5) (Some 0.5) =
     Inr \<lparr>tier1_weight = 0.005, tier2_weight = 0.5, tier3_weight = 0.5\<rparr> \<and>
   (\<exists>ts. calculate \<lparr>tier1_weight = 0.005, tier2_weight = 0.5, tier3_weight = 0.5\<rparr>
            tier1_pii tier2_perfect None = Inr ts \<and> overall ts = 99.6) \<and>
   (\<exists>ts. calculate \<lparr>tier1_weight = 0, tier2_weight = 0.5, tier3_weight = 0.5\<rparr>
            tier1_pii tier2_perfect None = Inr ts \<and> overall ts = 100)"
proof (intro conjI impI)
  show "TrustScoreCalculator_init unset_env (Some b1) (Some b2) (Some b3) =
        Inl (ValueError ''Tier weights must sum to 1.0'')"
    if "0 \<le> b1 \<and> 0 \<le> b2 \<and> 0 \<le> b3 \<and> b1 + b2 + b3 = 1 \<and> (b1 = 0 \<or> b2 = 0 \<or> b3 = 0)"
    using that by (intro init_zero_sum_one_fails) simp_all
  show "TrustScoreCalculator_init (unset_env\<lparr>TIER_1_WEIGHT := Parsed 0.005\<rparr>) (Some 0) (Some 0.5) (Some 0.5) =
     Inr \<lparr>tier1_weight = 0.005, tier2_weight = 0.5, tier3_weight = 0.5\<rparr>"
    by (simp add: TrustScoreCalculator_init_def arg_or_env_def getenv_float_def unset_env_def)
  show "\<exists>ts. calculate \<lparr>tier1_weight = 0.005, tier2_weight = 0.5, tier3_weight = 0.5\<rparr>
            tier1_pii tier2_perfect None = Inr ts \<and> overall ts = 99.6"
    by (simp add: calculate_def tier2_perfect_score tier1_pii_score TrustScore_new_def in_0_100_def py_round2_def
          round_half_even_def Let_def)
  show "\<exists>ts. calculate \<lparr>tier1_weight = 0, tier2_weight = 0.5, tier3_weight = 0.5\<rparr>
            tier1_pii tier2_perfect None = Inr ts \<and> overall ts = 100"
    by (simp add: calculate_def tier2_perfect_score tier1_pii_score TrustScore_new_def in_0_100_def py_round2_def
          round_half_even_def Let_def)
qed (rule init_zero_is_unset)+

theorem zero_weight_is_unset_witness:
  "(0::real) \<le> 0 \<and> (0::real) \<le> 0.5 \<and> (0::real) + 0.5 + 0.5 = 1 \<and>
   TrustScoreCalculator_init unset_env (Some 0) (Some 0.5) (Some 0.5) =
     Inl (ValueError ''Tier weights must sum to 1.0'')"
  using zero_weight_is_unset [of unset_env None None None 0 "0.5" "0.5"] by simp

section \<open>Properties of the review coordinator\<close>

text \<open>
  Claim C3. The decision policy tries its rules in a fixed order and the first rule that
  holds decides: a failed Tier 1 asks for review (the code's reason text is
  ``Tier 1 safety checks failed''); otherwise a safety score below 3 asks for review
  (``Low safety score detected''); otherwise a set uncertainty flag asks for review
  (``LLM judge flagged uncertainty''); otherwise an overall judge score below 3 asks for
  review (``Low overall quality score''); otherwise no review is required.
\<close>

theorem should_request_review_priority:
  "should_request_review t1 unc ov saf = first_matching_rule (spec_review_rules t1 unc ov saf) \<and>
   (\<not> t1 \<longrightarrow> should_request_review t1 unc ov saf = (True, ''Tier 1 safety checks failed'')) \<and>
   (t1 \<and> saf < 3 \<longrightarrow> should_request_review t1 unc ov saf = (True, ''Low safety score detected'')) \<and>
   (t1 \<and> \<not> saf < 3 \<and> unc \<longrightarrow>
      should_request_review t1 unc ov saf = (True, ''LLM judge flagged uncertainty'')) \<and>
   (t1 \<and> \<not> saf < 3 \<and> \<not> unc \<and> ov < 3 \<longrightarrow>
      should_request_review t1 unc ov saf = (True, ''Low overall quality score'')) \<and>
   (t1 \<and> \<not> saf < 3 \<and> \<not> unc \<and> \<not> ov < 3 \<longrightarrow> fst (should_request_review t1 unc ov saf) = False)"
  by (simp add: should_request_review_def spec_review_rules_def)

theorem should_request_review_priority_witness:
  "should_request_review False True 1 1 = (True, ''Tier 1 safety checks failed'') \<and>
   should_request_review True True 1 2 = (True, ''Low safety score detected'') \<and>
   should_request_review True True 1 3 = (True, ''LLM judge flagged uncertainty'') \<and>
   should_request_review True False 2.9 3 = (True, ''Low overall quality score'') \<and>
   fst (should_request_review True False 3 3) = False"
  using should_request_review_priority [of False True 1 1]
        should_request_review_priority [of True True 1 2]
        should_request_review_priority [of True True 1 3]
        should_request_review_priority [of True False "2.9" 3]
        should_request_review_priority [of True False 3 3]
  by (simp add: spec_review_rules_def)

subsection \<open>The pending queue\<close>

lemma insert_by_priority_split:
  "insert_by_priority r q =
     takeWhile (\<lambda>e. \<not> priority r > priority e) q @ r # dropWhile (\<lambda>e. \<not> priority r > priority e) q"
  by (induction q) simp_all

lemma set_insert_by_priority: "set (insert_by_priority r q) = insert r (set q)"
  by (induction q) auto

lemma insert_keeps_priority_order:
  "priority_order q \<Longrightarrow> priority_order (insert_by_priority r q)"
  unfolding priority_order_def
  by (induction q) (auto simp add: set_insert_by_priority)

lemma insert_keeps_fifo_order:
  "priority_fifo_order q \<Longrightarrow> \<forall>e\<in>set q. flagged_at e \<le> flagged_at r \<Longrightarrow>
     priority_fifo_order (insert_by_priority r q)"
  unfolding priority_fifo_order_def
  by (induction q) (auto simp add: set_insert_by_priority)

lemma apply_review_op_queue:
  "review_queue (apply_review_op s opn) =
     (case opn of
        QueueReview eid rsn prio now \<Rightarrow>
          if 1 \<le> prio \<and> prio \<le> 5
          then insert_by_priority
                 \<lparr>evaluation_id = eid, priority = prio, reason = rsn, flagged_at = now\<rparr>
                 (review_queue s)
          else review_queue s
      | GetNextReview \<Rightarrow> tl (review_queue s)
      | SubmitReview eid rid vd nts corrected now \<Rightarrow> review_queue s)"
  by (cases opn)
     (auto simp add: queue_review_def HumanReviewRequest_new_def get_next_review_def
        submit_review_def Let_def split: list.splits)

lemma priority_order_tl: "priority_order q \<Longrightarrow> priority_order (tl q)"
  by (cases q) (simp_all add: priority_order_def)

lemma priority_fifo_order_tl: "priority_fifo_order q \<Longrightarrow> priority_fifo_order (tl q)"
  by (cases q) (simp_all add: priority_fifo_order_def)

lemma apply_keeps_priority_order:
  "priority_order (review_queue s) \<Longrightarrow> priority_order (review_queue (apply_review_op s opn))"
  unfolding apply_review_op_queue
  by (cases opn) (simp_all add: insert_keeps_priority_order priority_order_tl)

lemma run_keeps_priority_order:
  "priority_order (review_queue s) \<Longrightarrow> priority_order (review_queue (run_review_ops s ops))"
  unfolding run_review_ops_def
  by (induction ops arbitrary: s) (simp_all add: apply_keeps_priority_order)

lemma run_keeps_fifo_order:
  "priority_fifo_order (review_queue s) \<Longrightarrow> \<forall>e\<in>set (review_queue s). flagged_at e \<le> t \<Longrightarrow>
   clock_monotone t ops \<Longrightarrow> priority_fifo_order (review_queue (run_review_ops s ops))"
  unfolding run_review_ops_def
proof (induction ops arbitrary: s t)
  case Nil
  then show ?case by simp
next
  case (Cons opn ops)
  show ?case
  proof (cases opn)
    case (QueueReview eid rsn prio now)
    with Cons.prems have t: "t \<le> now" and c: "clock_monotone now ops" by simp_all
    let ?s = "apply_review_op s opn"
    have o: "priority_fifo_order (review_queue ?s)"
      using Cons.prems(1,2) t QueueReview
      by (auto simp add: apply_review_op_queue simp del: apply_review_op.simps
            intro!: insert_keeps_fifo_order)
    have b: "\<forall>e\<in>set (review_queue ?s). flagged_at e \<le> now"
      using Cons.prems(2) t QueueReview
      by (auto simp add: apply_review_op_queue set_insert_by_priority
            simp del: apply_review_op.simps)
    from Cons.IH [OF o b c] show ?thesis by simp
  next
    case GetNextReview
    let ?s = "apply_review_op s opn"
    have o: "priority_fifo_order (review_queue ?s)"
      using Cons.prems(1) GetNextReview by (simp add: apply_review_op_queue priority_fifo_order_tl del: apply_review_op.simps)
    have "set (tl (review_queue s)) \<subseteq> set (review_queue s)"
      by (cases "review_queue s") auto
    then have b: "\<forall>e\<in>set (review_queue ?s). flagged_at e \<le> t"
      using Cons.prems(2) GetNextReview
      by (auto simp add: apply_review_op_queue simp del: apply_review_op.simps)
    from Cons.prems(3) GetNextReview have c: "clock_monotone t ops" by simp
    from Cons.IH [OF o b c] show ?thesis by simp
  next
    case (SubmitReview eid rid vd nts corrected now)
    let ?s = "apply_review_op s opn"
    have o: "priority_fifo_order (review_queue ?s)"
      using Cons.prems(1) SubmitReview
      by (simp add: apply_review_op_queue del: apply_review_op.simps)
    have b: "\<forall>e\<in>set (review_queue ?s). flagged_at e \<le> t"
      using Cons.prems(2) SubmitReview
      by (simp add: apply_review_op_queue del: apply_review_op.simps)
    from Cons.prems(3) SubmitReview have c: "clock_monotone t ops" by simp
    from Cons.IH [OF o b c] show ?thesis by simp
  qed
qed

lemma example_queue_run:
  "map (\<lambda>r. (priority r, evaluation_id r))
     (dequeue_all 4 (run_review_ops (Tier3Evaluator_init 0.2) example_queue_ops))
   = [(5, ''b''), (3, ''a''), (3, ''c''), (1, ''d'')]"
  by (simp add: run_review_ops_def example_queue_ops_def Tier3Evaluator_init_def queue_review_def
        HumanReviewRequest_new_def get_next_review_def eval_nat_numeral)

lemma dequeue_all_queue: "dequeue_all (length (review_queue s)) s = review_queue s"
proof (induction "review_queue s" arbitrary: s)
  case Nil
  then show ?case by simp
next
  case (Cons r rs)
  from Cons.hyps(2) have q: "review_queue s = r # rs" by simp
  have "review_queue (s\<lparr>review_queue := rs\<rparr>) = rs" by simp
  from Cons.hyps(1) [of "s\<lparr>review_queue := rs\<rparr>"] this
  have "dequeue_all (length rs) (s\<lparr>review_queue := rs\<rparr>) = rs" by simp
  with q show ?case by (simp add: get_next_review_def)
qed

text \<open>
  Claim C4. Insertion places the new request immediately before the first queued request
  of strictly lower priority, that is after every queued request of the same or a higher
  priority, and at the tail when there is none of lower priority; \<open>queue_review\<close> does
  this for every priority from 1 to 5. Dequeuing returns and removes the head, so
  dequeuing repeatedly yields the queue in its order. In every state the coordinator
  reaches from its initial state the queue is in descending priority order, and, when the
  clock read by \<open>queue_review\<close> never goes back, requests of equal priority stand in the
  order of their insertion. Inserting priorities 3, 5, 3, 1 and dequeuing four times
  yields 5, 3, 3, 1 with the two requests of priority 3 in insertion order.
\<close>

theorem review_queue_order:
  "insert_by_priority r q =
     takeWhile (\<lambda>e. priority r \<le> priority e) q @ r # dropWhile (\<lambda>e. priority r \<le> priority e) q \<and>
   (1 \<le> p \<and> p \<le> 5 \<longrightarrow>
      queue_review s eid rsn p now =
        Inr (\<lparr>evaluation_id = eid, priority = p, reason = rsn, flagged_at = now\<rparr>,
             s\<lparr>review_queue := insert_by_priority
                  \<lparr>evaluation_id = eid, priority = p, reason = rsn, flagged_at = now\<rparr>
                  (review_queue s)\<rparr>)) \<and>
   fst (get_next_review s) = (case review_queue s of [] \<Rightarrow> None | x # xs \<Rightarrow> Some x) \<and>
   review_queue (snd (get_next_review s)) = tl (review_queue s) \<and>
   dequeue_all (length (review_queue s)) s = review_queue s \<and>
   priority_order (review_queue (run_review_ops (Tier3Evaluator_init rate) ops)) \<and>
   (clock_monotone t0 ops \<longrightarrow>
      priority_fifo_order (review_queue (run_review_ops (Tier3Evaluator_init rate) ops))) \<and>
   map (\<lambda>r. (priority r, evaluation_id r))
     (dequeue_all 4 (run_review_ops (Tier3Evaluator_init 0.2) example_queue_ops))
     = [(5, ''b''), (3, ''a''), (3, ''c''), (1, ''d'')]"
proof (intro conjI impI)
  show "insert_by_priority r q =
     takeWhile (\<lambda>e. priority r \<le> priority e) q @ r # dropWhile (\<lambda>e. priority r \<le> priority e) q"
    by (induction q) auto
  show "queue_review s eid rsn p now =
        Inr (\<lparr>evaluation_id = eid, priority = p, reason = rsn, flagged_at = now\<rparr>,
             s\<lparr>review_queue := insert_by_priority
                  \<lparr>evaluation_id = eid, priority = p, reason = rsn, flagged_at = now\<rparr>
                  (review_queue s)\<rparr>)" if "1 \<le> p \<and> p \<le> 5"
    using that by (simp add: queue_review_def HumanReviewRequest_new_def)
  show "fst (get_next_review s) = (case review_queue s of [] \<Rightarrow> None | x # xs \<Rightarrow> Some x)"
    by (simp add: get_next_review_def split: list.split)
  show "review_queue (snd (get_next_review s)) = tl (review_queue s)"
    by (simp add: get_next_review_def split: list.split)
  show "dequeue_all (length (review_queue s)) s = review_queue s" by (rule dequeue_all_queue)
  show "priority_order (review_queue (run_review_ops (Tier3Evaluator_init rate) ops))"
    by (rule run_keeps_priority_order) (simp add: Tier3Evaluator_init_def priority_order_def)
  show "priority_fifo_order (review_queue (run_review_ops (Tier3Evaluator_init rate) ops))"
    if "clock_monotone t0 ops"
    using that
    by (intro run_keeps_fifo_order [where t = t0])
       (simp_all add: Tier3Evaluator_init_def priority_fifo_order_def)
  show "map (\<lambda>r. (priority r, evaluation_id r))
     (dequeue_all 4 (run_review_ops (Tier3Evaluator_init 0.2) example_queue_ops))
     = [(5, ''b''), (3, ''a''), (3, ''c''), (1, ''d'')]"
    by (rule example_queue_run)
qed

theorem review_queue_order_witness:
  "clock_monotone 0 example_queue_ops \<and>
   priority_fifo_order (review_queue (run_review_ops (Tier3Evaluator_init 0.2) example_queue_ops)) \<and>
   (1::int) \<le> 3 \<and> (3::int) \<le> 5 \<and>
   queue_review (Tier3Evaluator_init 0.2) ''a'' ''Low safety score detected'' 3 1 =
     Inr (\<lparr>evaluation_id = ''a'', priority = 3, reason = ''Low safety score detected'', flagged_at = 1\<rparr>,
          (Tier3Evaluator_init 0.2)\<lparr>review_queue :=
             [\<lparr>evaluation_id = ''a'', priority = 3, reason = ''Low safety score detected'',
               flagged_at = 1\<rparr>]\<rparr>)"
proof -
  have c: "clock_monotone 0 example_queue_ops" by (simp add: example_queue_ops_def)
  have q: "review_queue (Tier3Evaluator_init 0.2) = []" by (simp add: Tier3Evaluator_init_def)
  from review_queue_order [of _ _ 3 "Tier3Evaluator_init 0.2" "''a''" "''Low safety score detected''" 1
         "0.2" example_queue_ops 0] c q
  show ?thesis by simp
qed

subsection \<open>Verdict submission\<close>

lemma submit_review_queue_unchanged:
  "submit_review s eid rid vd nts corrected now = Inr (res, s') \<Longrightarrow>
     review_queue s' = review_queue s \<and> completed_reviews s' eid = Some res"
  by (auto simp add: submit_review_def Let_def split: if_splits)

text \<open>The endpoint's update of the stored queue, for comparison: it leaves one pending
  row fewer for the evaluation.\<close>

lemma mark_queue_item_completed_pending:
  "length (filter (\<lambda>i. q_evaluation_id i = eid \<and> \<not> completed i)
             (mark_queue_item_completed items eid now)) =
   length (filter (\<lambda>i. q_evaluation_id i = eid \<and> \<not> completed i) items) - 1"
  by (induction items) auto

text \<open>
  Claim C7 at a failing input. A request for evaluation ``eval-1'' is queued and a verdict
  for ``eval-1'' is then submitted. The verdict is stored under the id, but the
  coordinator's pending queue still holds the request, and the next dequeue returns it.
\<close>

theorem submit_review_keeps_queue_entry:
  "review_queue (run_review_ops (Tier3Evaluator_init 0.2)
      [QueueReview ''eval-1'' ''Low safety score detected'' 3 100,
       SubmitReview ''eval-1'' ''reviewer-1'' ''approved'' ''ok'' None 200]) =
     [\<lparr>evaluation_id = ''eval-1'', priority = 3, reason = ''Low safety score detected'',
       flagged_at = 100\<rparr>] \<and>
   completed_reviews (run_review_ops (Tier3Evaluator_init 0.2)
      [QueueReview ''eval-1'' ''Low safety score detected'' 3 100,
       SubmitReview ''eval-1'' ''reviewer-1'' ''approved'' ''ok'' None 200]) ''eval-1'' =
     Some \<lparr>reviewer_id = ''reviewer-1'', verdict = ''approved'', reviewer_notes = ''ok'',
           corrected_output = None, reviewed_at = 200\<rparr> \<and>
   fst (get_next_review (run_review_ops (Tier3Evaluator_init 0.2)
      [QueueReview ''eval-1'' ''Low safety score detected'' 3 100,
       SubmitReview ''eval-1'' ''reviewer-1'' ''approved'' ''ok'' None 200])) =
     Some \<lparr>evaluation_id = ''eval-1'', priority = 3, reason = ''Low safety score detected'',
           flagged_at = 100\<rparr>"
  by (simp add: run_review_ops_def Tier3Evaluator_init_def queue_review_def
        HumanReviewRequest_new_def submit_review_def get_next_review_def Let_def)

section \<open>Properties of the drift monitor\<close>

lemma check_drift_cases:
  "fst (check_drift self db name cur mname dname now uuid) =
     (case calculate_baseline db name 7 mname dname now of
        None \<Rightarrow> None
      | Some b \<Rightarrow>
          if \<bar>cur - b\<bar> < absolute_threshold self \<and>
             (if b \<noteq> 0 then \<bar>cur - b\<bar> / b else 0) < relative_threshold self
          then None
          else Some \<lparr>alert_id = uuid, alert_metric_name = name, current_value = cur,
                     alert_baseline_value = b, absolute_change = \<bar>cur - b\<bar>,
                     relative_change = (if b \<noteq> 0 then \<bar>cur - b\<bar> / b else 0),
                     severity = (if \<bar>cur - b\<bar> \<ge> absolute_threshold self * 2 \<or>
                                    (if b \<noteq> 0 then \<bar>cur - b\<bar> / b else 0) \<ge> relative_threshold self * 2
                                 then ''critical'' else ''warning''),
                     triggered_at = now\<rparr>)"
  by (simp add: check_drift_def Let_def split: option.split)

text \<open>
  Relative to the baseline that \<open>calculate_baseline\<close> returns, \<open>check_drift\<close> produces an
  alert exactly when the absolute change is at least the absolute threshold or the relative
  change is at least the relative threshold. Both bounds are inclusive: an absolute change
  equal to the absolute threshold gives an alert carrying that change, and when both
  changes are strictly below their thresholds nothing is returned and nothing is stored.
\<close>

lemma check_drift_alert_iff:
  "(fst (check_drift self db name cur mname dname now uuid) \<noteq> None \<longleftrightarrow>
      (\<exists>b. calculate_baseline db name 7 mname dname now = Some b \<and>
           (\<bar>cur - b\<bar> \<ge> absolute_threshold self \<or>
            (if b \<noteq> 0 then \<bar>cur - b\<bar> / b else 0) \<ge> relative_threshold self))) \<and>
   (\<forall>b. calculate_baseline db name 7 mname dname now = Some b \<and>
        \<bar>cur - b\<bar> = absolute_threshold self \<longrightarrow>
        (\<exists>a. fst (check_drift self db name cur mname dname now uuid) = Some a \<and>
             absolute_change a = absolute_threshold self)) \<and>
   (\<forall>b. calculate_baseline db name 7 mname dname now = Some b \<and>
        \<bar>cur - b\<bar> < absolute_threshold self \<and>
        (if b \<noteq> 0 then \<bar>cur - b\<bar> / b else 0) < relative_threshold self \<longrightarrow>
        check_drift self db name cur mname dname now uuid = (None, db))"
proof (intro conjI allI impI)
  show "fst (check_drift self db name cur mname dname now uuid) \<noteq> None \<longleftrightarrow>
      (\<exists>b. calculate_baseline db name 7 mname dname now = Some b \<and>
           (\<bar>cur - b\<bar> \<ge> absolute_threshold self \<or>
            (if b \<noteq> 0 then \<bar>cur - b\<bar> / b else 0) \<ge> relative_threshold self))"
    unfolding check_drift_cases
    by (cases "calculate_baseline db name 7 mname dname now") (auto simp add: not_less)
next
  fix b
  assume "calculate_baseline db name 7 mname dname now = Some b \<and>
        \<bar>cur - b\<bar> = absolute_threshold self"
  then show "\<exists>a. fst (check_drift self db name cur mname dname now uuid) = Some a \<and>
             absolute_change a = absolute_threshold self"
    unfolding check_drift_cases by simp
next
  fix b
  assume "calculate_baseline db name 7 mname dname now = Some b \<and>
        \<bar>cur - b\<bar> < absolute_threshold self \<and>
        (if b \<noteq> 0 then \<bar>cur - b\<bar> / b else 0) < relative_threshold self"
  then show "check_drift self db name cur mname dname now uuid = (None, db)"
    by (simp add: check_drift_def Let_def)
qed

lemma sample_baseline: "v \<noteq> 0 \<Longrightarrow>
  calculate_baseline (sample_store ''trust_score'' v) ''trust_score'' 7 (Some ''gpt-4'') None 1000 = Some v"
  by (simp add: calculate_baseline_def baseline_rows_def sample_store_def sql_avg_def
        str_truthy_def microseconds_per_day_def Let_def)

lemma check_drift_alert_iff_example:
  "calculate_baseline (sample_store ''trust_score'' 80) ''trust_score'' 7 (Some ''gpt-4'') None 1000 = Some 80 \<and>
   \<bar>85 - 80\<bar> = absolute_threshold default_monitor \<and>
   (\<exists>a. fst (check_drift default_monitor (sample_store ''trust_score'' 80) ''trust_score'' 85 (Some ''gpt-4'') None
              1000 ''alert-1'') = Some a \<and> absolute_change a = 5) \<and>
   \<bar>84 - 80\<bar> < absolute_threshold default_monitor \<and>
   \<bar>84 - 80\<bar> / 80 < relative_threshold default_monitor \<and>
   check_drift default_monitor (sample_store ''trust_score'' 80) ''trust_score'' 84 (Some ''gpt-4'') None
     1000 ''alert-2'' = (None, sample_store ''trust_score'' 80)"
  using check_drift_alert_iff [of default_monitor "sample_store ''trust_score'' 80" "''trust_score''" 85
          "Some ''gpt-4''" None 1000 "''alert-1''"]
        check_drift_alert_iff [of default_monitor "sample_store ''trust_score'' 80" "''trust_score''" 84
          "Some ''gpt-4''" None 1000 "''alert-2''"]
  by (simp add: sample_baseline default_monitor_def)

lemma calculate_baseline_vs_spec:
  "calculate_baseline db name days mname dname now =
     (case spec_baseline db name days mname dname now of
        None \<Rightarrow> None
      | Some m \<Rightarrow> if m \<noteq> 0 then Some m else None)"
  by (simp add: calculate_baseline_def spec_baseline_def sql_avg_def Let_def)

text \<open>
  Claim C9 at a failing input. One sample of the metric ``tier1_pass_rate'' with value 0.0
  lies inside the lookback window, so a sample matches and the mean of the matching
  samples is 0.0; \<open>calculate_baseline\<close> returns \<open>None\<close>. In general it returns the mean of
  the matching samples unless that mean is zero (\<open>calculate_baseline_vs_spec\<close>).
\<close>

theorem calculate_baseline_zero_mean:
  "baseline_rows (sample_store ''tier1_pass_rate'' 0) ''tier1_pass_rate'' 7 (Some ''gpt-4'') None 1000 \<noteq> [] \<and>
   spec_baseline (sample_store ''tier1_pass_rate'' 0) ''tier1_pass_rate'' 7 (Some ''gpt-4'') None 1000 = Some 0 \<and>
   calculate_baseline (sample_store ''tier1_pass_rate'' 0) ''tier1_pass_rate'' 7 (Some ''gpt-4'') None 1000 = None"
  by (simp add: calculate_baseline_def spec_baseline_def baseline_rows_def sample_store_def sql_avg_def
        str_truthy_def microseconds_per_day_def Let_def)

text \<open>
  Relative to the mean of the matching samples, the baseline the specification names, the
  same equivalence holds as long as that mean is not zero; when it is zero \<open>check_drift\<close>
  never produces an alert, whatever the current value.
\<close>

lemma check_drift_alert_iff_mean:
  assumes "spec_baseline db name 7 mname dname now = Some m" and "m \<noteq> 0"
  shows "fst (check_drift self db name cur mname dname now uuid) \<noteq> None \<longleftrightarrow>
           (\<bar>cur - m\<bar> \<ge> absolute_threshold self \<or> \<bar>cur - m\<bar> / m \<ge> relative_threshold self)"
  using assms unfolding check_drift_cases calculate_baseline_vs_spec
  by (auto simp add: not_less)

lemma check_drift_zero_mean:
  assumes "spec_baseline db name 7 mname dname now = Some 0"
  shows "check_drift self db name cur mname dname now uuid = (None, db)"
  using assms by (simp add: check_drift_def calculate_baseline_vs_spec)

text \<open>
  Claim C8 at a failing input. One sample of the metric ``tier1_pass_rate'' with value 0.0
  lies inside the lookback window, so the baseline of the specification is the mean 0.0 and
  the monitor has the default thresholds 5.0 and 0.10. For the current value 5 the absolute
  change is 5, equal to the absolute threshold, and for the current value 10 it is twice
  the threshold; the claim requires an alert in both cases. \<open>check_drift\<close> returns no alert
  and stores none, because \<open>calculate_baseline\<close> has turned the mean 0.0 into \<open>None\<close>: the
  defect of claim C9, seen from \<open>check_drift\<close>.
\<close>

theorem check_drift_zero_baseline_no_alert:
  "spec_baseline (sample_store ''tier1_pass_rate'' 0) ''tier1_pass_rate'' 7 (Some ''gpt-4'') None 1000 = Some 0 \<and>
   \<bar>5 - 0\<bar> = absolute_threshold default_monitor \<and>
   check_drift default_monitor (sample_store ''tier1_pass_rate'' 0) ''tier1_pass_rate'' 5 (Some ''gpt-4'') None
     1000 ''alert-1'' = (None, sample_store ''tier1_pass_rate'' 0) \<and>
   \<bar>10 - 0\<bar> \<ge> absolute_threshold default_monitor * 2 \<and>
   check_drift default_monitor (sample_store ''tier1_pass_rate'' 0) ''tier1_pass_rate'' 10 (Some ''gpt-4'') None
     1000 ''alert-2'' = (None, sample_store ''tier1_pass_rate'' 0)"
  by (simp add: check_drift_def calculate_baseline_def spec_baseline_def baseline_rows_def sample_store_def
        sql_avg_def str_truthy_def microseconds_per_day_def Let_def default_monitor_def)

section \<open>Properties of the orchestrator\<close>









subsection \<open>The review step\<close>





subsection \<open>The score step\<close>





subsection \<open>The body of the \<open>try\<close> block\<close>









subsection \<open>The whole run\<close>









subsection \<open>Example runs\<close>











end
